theory Spec2Isabelle
  imports Main
begin

section \<open>FetchNode (scrapegraphai/nodes/fetch\_node.py)\<close>

text \<open>
  A shallow embedding of the class \<open>FetchNode\<close>: its constructor and its
  method \<open>execute\<close>. Python exceptions are values of the type \<open>error\<close>,
  the dictionaries are maps, the calls that leave the process (the HTTP GET
  and the headless browser) are recorded in a list of calls, and the
  collaborators that the module imports (\<open>cleanup_html\<close>, \<open>requests\<close>,
  \<open>BeautifulSoup\<close>, \<open>AsyncChromiumLoader\<close>, and the inherited method
  \<open>get_input_keys\<close>) are the fields of an environment record.
  The two \<open>print\<close> statements write to standard output only; the first is
  left out, the second never completes (see \<open>static_fetch\<close>).
\<close>

subsection \<open>Values\<close>

text \<open>The values a \<open>node_config\<close> dictionary holds, with Python's truth value.\<close>

datatype pyval = PNone | PBool bool | PInt int | PStr string

fun truthy :: "pyval \<Rightarrow> bool" where
  "truthy PNone = False"
| "truthy (PBool b) = b"
| "truthy (PInt i) = (i \<noteq> 0)"
| "truthy (PStr s) = (s \<noteq> [])"

type_synonym config = "string \<rightharpoonup> pyval"

text \<open>\<open>d.get(k, dflt)\<close> on a dictionary.\<close>

definition dict_get :: "config \<Rightarrow> string \<Rightarrow> pyval \<Rightarrow> pyval" where
  "dict_get d k dflt = (case d k of None \<Rightarrow> dflt | Some v \<Rightarrow> v)"

text \<open>
  \<open>langchain_core.documents.Document\<close>: the text and a metadata dictionary,
  which is empty when the constructor is given none.
\<close>

record Document =
  page_content :: string
  metadata :: "string \<rightharpoonup> string"

text \<open>
  What the state dictionary holds under a key: a string (a source reference),
  a list of documents (what \<open>execute\<close> writes), or any other object.
\<close>

datatype pyobj = Str string | Docs "Document list" | Other nat

type_synonym state = "string \<rightharpoonup> pyobj"

datatype error =
    KeyError string
  | IndexError
  | NameError string
  | AttributeError string
  | ValidationError
  | ExternalError string

subsection \<open>The parsed markup\<close>

text \<open>
  The tree \<open>BeautifulSoup\<close> builds: a tag has a name, an attribute
  dictionary and contents; the contents are tags and strings. The attribute
  dictionary is an association list read with \<open>map_of\<close>.
  \<open>find_all name\<close> is the library's search: every tag with that name below
  the root, in document order (a tag before the tags inside it).
\<close>

datatype tag = Tag (name: string) (attrs: "(string \<times> string) list") (contents: "node list")
  and node = Element tag | NavigableString string

fun find_all :: "string \<Rightarrow> tag \<Rightarrow> tag list"
  and find_all_node :: "string \<Rightarrow> node \<Rightarrow> tag list"
  and find_all_nodes :: "string \<Rightarrow> node list \<Rightarrow> tag list" where
  "find_all nm (Tag n a cs) = find_all_nodes nm cs"
| "find_all_node nm (Element t) = (if name t = nm then [t] else []) @ find_all nm t"
| "find_all_node nm (NavigableString s) = []"
| "find_all_nodes nm [] = []"
| "find_all_nodes nm (c # cs) = find_all_node nm c @ find_all_nodes nm cs"

text \<open>
  The loop of \<open>execute\<close> over the anchors:
  \<^verbatim>\<open>for link in links:
      if 'href' in link.attrs:
          link_urls.append(link['href'])\<close>
\<close>

fun link_loop :: "tag list \<Rightarrow> string list \<Rightarrow> string list" where
  "link_loop [] link_urls = link_urls"
| "link_loop (link # links) link_urls =
     link_loop links
       (case map_of (attrs link) ''href'' of
          None \<Rightarrow> link_urls
        | Some href \<Rightarrow> link_urls @ [href])"

subsection \<open>The node\<close>

text \<open>
  The attributes of an instance that \<open>execute\<close> reads. \<open>useSoup\<close>,
  \<open>headless\<close> and \<open>verbose\<close> are bound by \<open>FetchNode.__init__\<close>;
  \<open>node_name\<close>, \<open>input\<close> and \<open>output\<close> by the inherited constructor, which
  is given them; \<open>node_config\<close> is bound by nothing in this module, so the
  field holds what the inherited constructor leaves there: \<open>None\<close> when the
  attribute does not exist, \<open>Some None\<close> when it is Python's \<open>None\<close>,
  \<open>Some (Some d)\<close> when it is a dictionary.
\<close>

record FetchNode =
  node_name :: string
  input :: string
  "output" :: "string list"
  node_config :: "config option option"
  useSoup :: pyval
  headless :: pyval
  verbose :: pyval

text \<open>
  \<open>FetchNode.__init__(input, output, node_config, node_name)\<close>. The call
  \<open>super().__init__(node_name, "node", input, output, 1)\<close> passes no
  \<open>node_config\<close>: what it binds under that name is the parameter
  \<open>inherited\<close>, which cannot depend on the dictionary given here.
  The second argument is Python's \<open>Optional[dict]\<close>.
\<close>

definition FetchNode_init ::
  "config option option \<Rightarrow> string \<Rightarrow> string list \<Rightarrow> config option \<Rightarrow> string \<Rightarrow> FetchNode" where
  "FetchNode_init inherited inp outp cfg nm =
     \<lparr> node_name = nm, input = inp, output = outp, node_config = inherited,
       useSoup = (case cfg of None \<Rightarrow> PBool True | Some d \<Rightarrow> dict_get d ''useSoup'' (PBool True)),
       headless = (case cfg of None \<Rightarrow> PBool True | Some d \<Rightarrow> dict_get d ''headless'' (PBool True)),
       verbose = (case cfg of None \<Rightarrow> PBool False | Some d \<Rightarrow> dict_get d ''verbose'' (PBool False)) \<rparr>"

subsection \<open>The collaborators\<close>

record response =
  status_code :: int
  text_of :: string

text \<open>A call that leaves the process, with its arguments.\<close>

datatype call =
    Get string
  | ChromiumLoad "string list" "(string \<times> pyval) list option" pyval

text \<open>
  \<^item> \<open>get_input_keys\<close>: the inherited method, applied to the node and the state;
  \<^item> \<open>cleanup_html\<close>: the text and the links, \<open>None\<close> when the second
    argument is left out;
  \<^item> \<open>requests_get\<close>: \<open>requests.get(url)\<close>;
  \<^item> \<open>BeautifulSoup\<close>: \<open>BeautifulSoup(text, 'html.parser')\<close>, and
    \<open>prettify\<close>: \<open>soup.prettify()\<close>;
  \<^item> \<open>chromium_load\<close>: \<open>AsyncChromiumLoader(urls, proxies=..., headless=...).load()\<close>,
    with \<open>None\<close> for the proxies when the keyword is left out.
  Each may raise; the parser and the printer do not. None of them assigns to
  the state dictionary or to the instance.
\<close>

record env =
  get_input_keys :: "FetchNode \<Rightarrow> state \<Rightarrow> error + string list"
  cleanup_html :: "string \<Rightarrow> string list option \<Rightarrow> error + string"
  requests_get :: "string \<Rightarrow> error + response"
  BeautifulSoup :: "string \<Rightarrow> tag"
  prettify :: "tag \<Rightarrow> string"
  chromium_load :: "string list \<Rightarrow> (string \<times> pyval) list option \<Rightarrow> pyval \<Rightarrow> error + Document list"

subsection \<open>execute\<close>

text \<open>\<open>s.startswith(p)\<close>.\<close>

definition startswith :: "string \<Rightarrow> string \<Rightarrow> bool" where
  "startswith s p = (take (length p) s = p)"

text \<open>\<open>[state[key] for key in input_keys]\<close>: the first missing key raises.\<close>

fun lookup_keys :: "state \<Rightarrow> string list \<Rightarrow> error + pyobj list" where
  "lookup_keys state [] = Inr []"
| "lookup_keys state (key # keys) =
     (case state key of
        None \<Rightarrow> Inl (KeyError key)
      | Some v \<Rightarrow> (case lookup_keys state keys of Inl e \<Rightarrow> Inl e | Inr vs \<Rightarrow> Inr (v # vs)))"

text \<open>
  \<open>[Document(page_content=c, metadata=m)]\<close> where \<open>c\<close> is the result of a
  call that may have raised.
\<close>

definition one_document :: "error + string \<Rightarrow> (string \<rightharpoonup> string) \<Rightarrow> error + Document list" where
  "one_document r m =
     (case r of Inl e \<Rightarrow> Inl e | Inr c \<Rightarrow> Inr [\<lparr> page_content = c, metadata = m \<rparr>])"

text \<open>
  The branch \<open>elif self.useSoup\<close> (lines 78 to 88). On a status other than 200
  the f-string of the \<open>print\<close> reads the name \<open>url\<close>, which is bound nowhere
  in the module.
\<close>

definition static_fetch :: "env \<Rightarrow> string \<Rightarrow> (error + Document list) \<times> call list" where
  "static_fetch E source =
     (case requests_get E source of
        Inl e \<Rightarrow> (Inl e, [Get source])
      | Inr response \<Rightarrow>
          if status_code response = 200 then
            (let soup = BeautifulSoup E (text_of response);
                 links = find_all ''a'' soup;
                 link_urls = link_loop links []
             in (one_document (cleanup_html E (prettify E soup) (Some link_urls)) Map.empty,
                 [Get source]))
          else (Inl (NameError ''url''), [Get source]))"

text \<open>
  The last branch (lines 90 to 105). Reading \<open>self.node_config\<close> raises when
  the attribute does not exist; \<open>document[0]\<close> raises on an empty list.
\<close>

definition dynamic_fetch :: "env \<Rightarrow> FetchNode \<Rightarrow> string \<Rightarrow> (error + Document list) \<times> call list" where
  "dynamic_fetch E self source =
     (case node_config self of
        None \<Rightarrow> (Inl (AttributeError ''node_config''), [])
      | Some nc \<Rightarrow>
          (let proxies =
                 (case nc of
                    None \<Rightarrow> None
                  | Some d \<Rightarrow>
                      (case d ''endpoint'' of
                         None \<Rightarrow> None
                       | Some PNone \<Rightarrow> None
                       | Some endpoint \<Rightarrow> Some [(''http'', endpoint)]))
           in (case chromium_load E [source] proxies (headless self) of
                 Inl e \<Rightarrow> Inl e
               | Inr [] \<Rightarrow> Inl IndexError
               | Inr (d # ds) \<Rightarrow> one_document (cleanup_html E (page_content d) None) Map.empty,
               [ChromiumLoad [source] proxies (headless self)])))"

text \<open>
  The chain of line 67 to line 105, which binds \<open>compressed_document\<close>.
  \<open>Document(page_content=source, ...)\<close> rejects a \<open>source\<close> that is no string,
  and so does \<open>source.startswith\<close>, for want of the method.
\<close>

definition compressed_document ::
  "env \<Rightarrow> FetchNode \<Rightarrow> pyobj \<Rightarrow> (error + Document list) \<times> call list" where
  "compressed_document E self source =
     (if input self = ''json_dir'' \<or> input self = ''xml_dir'' \<or> input self = ''csv_dir'' then
        (case source of
           Str s \<Rightarrow> (Inr [\<lparr> page_content = s, metadata = [''source'' \<mapsto> ''local_dir''] \<rparr>], [])
         | _ \<Rightarrow> (Inl ValidationError, []))
      else
        (case source of
           Str s \<Rightarrow>
             if \<not> startswith s ''http'' then
               (one_document (cleanup_html E s None) [''source'' \<mapsto> ''local_dir''], [])
             else if truthy (useSoup self) then static_fetch E s
             else dynamic_fetch E self s
         | _ \<Rightarrow> (Inl (AttributeError ''startswith''), [])))"

text \<open>
  Lines 61 to 66: the input keys, the values under them, and the first of
  these, \<open>source\<close>.
\<close>

definition input_source :: "env \<Rightarrow> FetchNode \<Rightarrow> state \<Rightarrow> error + pyobj" where
  "input_source E self state =
     (case get_input_keys E self state of
        Inl e \<Rightarrow> Inl e
      | Inr input_keys \<Rightarrow>
          (case lookup_keys state input_keys of
             Inl e \<Rightarrow> Inl e
           | Inr [] \<Rightarrow> Inl IndexError
           | Inr (source # rest) \<Rightarrow> Inr source))"

text \<open>
  What a call of \<open>execute\<close> leaves behind: the exception that left it
  (\<open>None\<close> when it returned \<open>state\<close>), the instance and the state dictionary
  after the call, and the calls that left the process, in order.
\<close>

record outcome =
  raised :: "error option"
  node_after :: FetchNode
  state_after :: state
  calls :: "call list"

text \<open>
  \<open>FetchNode.execute(self, state)\<close>. No statement assigns to an attribute of
  \<open>self\<close>; the one statement that changes \<open>state\<close> is the last,
  \<open>state.update({self.output[0]: compressed_document})\<close>, where
  \<open>self.output[0]\<close> raises on an empty list.
\<close>

definition execute :: "env \<Rightarrow> FetchNode \<Rightarrow> state \<Rightarrow> outcome" where
  "execute E self state =
     (case input_source E self state of
        Inl e \<Rightarrow> \<lparr> raised = Some e, node_after = self, state_after = state, calls = [] \<rparr>
      | Inr source \<Rightarrow>
          (case compressed_document E self source of
             (Inl e, cs) \<Rightarrow>
               \<lparr> raised = Some e, node_after = self, state_after = state, calls = cs \<rparr>
           | (Inr docs, cs) \<Rightarrow>
               (case output self of
                  [] \<Rightarrow>
                    \<lparr> raised = Some IndexError, node_after = self, state_after = state,
                      calls = cs \<rparr>
                | key # keys \<Rightarrow>
                    \<lparr> raised = None, node_after = self,
                      state_after = state(key \<mapsto> Docs docs), calls = cs \<rparr>)))"

text \<open>The targets of a call.\<close>

fun call_urls :: "call \<Rightarrow> string list" where
  "call_urls (Get url) = [url]"
| "call_urls (ChromiumLoad urls proxies h) = urls"

text \<open>
  The spec's wording of the test for a remote reference: the reference begins
  with an HTTP(S) scheme prefix. The code tests \<open>startswith source ''http''\<close>.
\<close>

definition http_scheme_prefix :: "string \<Rightarrow> bool" where
  "http_scheme_prefix s = (startswith s ''http://'' \<or> startswith s ''https://'')"

subsection \<open>Stand-ins for the collaborators\<close>

text \<open>
  A deterministic environment for the examples: one page that answers 200 with
  two anchors, one address that answers 404, and a client that rejects every
  other address; a cleaner that marks its input; a browser that returns one
  rendered page.
\<close>

definition body_ab :: string where
  "body_ab = ''<html><body><a href=\"/a\">x</a><a href=\"/b\">y</a></body></html>''"

definition soup_ab :: tag where
  "soup_ab =
     Tag ''[document]'' []
       [Element (Tag ''html'' []
          [Element (Tag ''body'' []
             [Element (Tag ''a'' [(''href'', ''/a'')] [NavigableString ''x'']),
              Element (Tag ''a'' [(''href'', ''/b'')] [NavigableString ''y''])])])]"

definition demo_clean :: "string \<Rightarrow> string list option \<Rightarrow> string" where
  "demo_clean s links =
     ''clean('' @ s @ (case links of None \<Rightarrow> [] | Some ls \<Rightarrow> concat (map (\<lambda>l. '','' @ l) ls)) @ '')''"

definition demo_env :: env where
  "demo_env =
     \<lparr> get_input_keys =
         (\<lambda>self state. case state (input self) of
                          None \<Rightarrow> Inl (KeyError (input self))
                        | Some v \<Rightarrow> Inr [input self]),
       cleanup_html = (\<lambda>s links. Inr (demo_clean s links)),
       requests_get =
         (\<lambda>url. if url = ''http://example.com/ab''
                   then Inr \<lparr> status_code = 200, text_of = body_ab \<rparr>
                 else if url = ''http://example.com/missing''
                   then Inr \<lparr> status_code = 404, text_of = ''Not Found'' \<rparr>
                 else Inl (ExternalError ''MissingSchema'')),
       BeautifulSoup = (\<lambda>t. if t = body_ab then soup_ab else Tag ''[document]'' [] []),
       prettify = (\<lambda>t. ''<pretty>''),
       chromium_load =
         (\<lambda>urls proxies h. Inr [\<lparr> page_content = ''<html>rendered</html>'', metadata = Map.empty \<rparr>]) \<rparr>"

section \<open>Properties\<close>

subsection \<open>Auxiliary facts\<close>

lemma link_loop_acc:
  "link_loop links acc = acc @ List.map_filter (\<lambda>link. map_of (attrs link) ''href'') links"
  by (induction links arbitrary: acc) (auto simp: List.map_filter_simps split: option.splits)

lemma link_loop_map_filter:
  "link_loop links [] = List.map_filter (\<lambda>link. map_of (attrs link) ''href'') links"
  by (simp add: link_loop_acc)

lemma one_document_length:
  "one_document r m = Inr docs \<Longrightarrow> length docs = 1"
  by (auto simp: one_document_def split: sum.splits)

lemma static_fetch_length:
  "static_fetch E s = (Inr docs, cs) \<Longrightarrow> length docs = 1"
  by (auto simp: static_fetch_def Let_def dest: one_document_length split: sum.splits if_splits)

lemma dynamic_fetch_length:
  "dynamic_fetch E self s = (Inr docs, cs) \<Longrightarrow> length docs = 1"
  by (auto simp: dynamic_fetch_def Let_def dest: one_document_length
      split: sum.splits if_splits option.splits list.splits)

lemma compressed_document_length:
  "compressed_document E self source = (Inr docs, cs) \<Longrightarrow> length docs = 1"
  by (auto simp: compressed_document_def
      dest: one_document_length static_fetch_length dynamic_fetch_length
      split: if_splits pyobj.splits)

lemma state_after_execute:
  "state_after (execute E self state) = state \<or>
   (\<exists>key keys docs. output self = key # keys \<and>
      state_after (execute E self state) = state(key \<mapsto> Docs docs))"
  by (auto simp: execute_def split: sum.splits prod.splits list.splits)

lemma demo_input_source_single:
  "input_source demo_env (FetchNode_init inh k outp cfg nm) [k \<mapsto> v] = Inr v"
  by (simp add: input_source_def demo_env_def FetchNode_init_def)

lemma FetchNode_init_ignores_endpoint:
  "FetchNode_init inherited inp outp (Some (d(''endpoint'' \<mapsto> e))) nm =
   FetchNode_init inherited inp outp (Some d) nm"
  by (simp add: FetchNode_init_def dict_get_def)

lemma node_config_FetchNode_init:
  "node_config (FetchNode_init inherited inp outp cfg nm) = inherited"
  by (simp add: FetchNode_init_def)

lemma dynamic_fetch_calls:
  assumes "node_config self = Some nc"
  shows "snd (dynamic_fetch E self source) =
           [ChromiumLoad [source]
              (case nc of
                 None \<Rightarrow> None
               | Some d \<Rightarrow>
                   (case d ''endpoint'' of
                      None \<Rightarrow> None
                    | Some PNone \<Rightarrow> None
                    | Some endpoint \<Rightarrow> Some [(''http'', endpoint)]))
              (headless self)]"
  using assms by (simp add: dynamic_fetch_def Let_def)

lemma static_fetch_calls: "snd (static_fetch E source) = [Get source]"
  by (simp add: static_fetch_def Let_def split: sum.splits)

lemma calls_execute:
  "input_source E self state = Inr source \<Longrightarrow>
   calls (execute E self state) = snd (compressed_document E self source)"
  by (simp add: execute_def split: sum.splits prod.splits list.splits)

subsection \<open>The static strategy\<close>

text \<open>
  C1. The claim: when the source is a remote URL, the static strategy is
  selected and the GET answers a status other than 200, the call fails with a
  FetchError that carries the URL and the status, and the state is unchanged.
  The code at such an input: the address answers 404, and what leaves
  \<open>execute\<close> is the \<open>NameError\<close> of the unbound name \<open>url\<close> in the
  diagnostic message; it carries neither the address nor the status. The
  state is unchanged.
\<close>

theorem non_200_raises_NameError:
  "execute demo_env (FetchNode_init None ''url'' [''doc''] None ''Fetch'')
       [''url'' \<mapsto> Str ''http://example.com/missing''] =
     \<lparr> raised = Some (NameError ''url''),
       node_after = FetchNode_init None ''url'' [''doc''] None ''Fetch'',
       state_after = [''url'' \<mapsto> Str ''http://example.com/missing''],
       calls = [Get ''http://example.com/missing''] \<rparr>"
  by (simp add: execute_def input_source_def compressed_document_def static_fetch_def
      demo_env_def FetchNode_init_def startswith_def)

text \<open>
  C2. When the source is a remote URL, the static strategy is selected and the
  GET answers 200, the links handed to the cleaner are the \<open>href\<close> values of
  the anchors of the parsed body that have one, in document order and with
  repetitions kept; the document written is the cleaner's result on the
  prettified markup and these links, with empty metadata.
\<close>

theorem static_fetch_links:
  assumes "\<not> (input self = ''json_dir'' \<or> input self = ''xml_dir'' \<or> input self = ''csv_dir'')"
    and "input_source E self state = Inr (Str source)"
    and "startswith source ''http''"
    and "truthy (useSoup self)"
    and "requests_get E source = Inr response"
    and "status_code response = 200"
    and "cleanup_html E (prettify E (BeautifulSoup E (text_of response)))
           (Some (List.map_filter (\<lambda>link. map_of (attrs link) ''href'')
                    (find_all ''a'' (BeautifulSoup E (text_of response))))) = Inr content"
    and "output self = key # keys"
  shows "execute E self state =
           \<lparr> raised = None, node_after = self,
             state_after = state(key \<mapsto> Docs [\<lparr> page_content = content, metadata = Map.empty \<rparr>]),
             calls = [Get source] \<rparr>"
  using assms
  by (simp add: execute_def compressed_document_def static_fetch_def Let_def
      link_loop_map_filter one_document_def)

text \<open>
  The instance of C2 for the body with the two anchors \<open>/a\<close> and \<open>/b\<close>: the
  links are exactly these two, in this order, and the content is the cleaner's
  result on the prettified body and these links.
\<close>

theorem static_fetch_links_witness:
  "List.map_filter (\<lambda>link. map_of (attrs link) ''href'')
     (find_all ''a'' (BeautifulSoup demo_env body_ab)) = [''/a'', ''/b''] \<and>
   execute demo_env (FetchNode_init None ''url'' [''doc''] None ''Fetch'')
       [''url'' \<mapsto> Str ''http://example.com/ab''] =
     \<lparr> raised = None,
       node_after = FetchNode_init None ''url'' [''doc''] None ''Fetch'',
       state_after =
         [''url'' \<mapsto> Str ''http://example.com/ab'',
          ''doc'' \<mapsto> Docs [\<lparr> page_content =
                                   demo_clean (prettify demo_env (BeautifulSoup demo_env body_ab))
                                     (Some [''/a'', ''/b'']),
                                 metadata = Map.empty \<rparr>]],
       calls = [Get ''http://example.com/ab''] \<rparr>"
proof -
  have links: "List.map_filter (\<lambda>link. map_of (attrs link) ''href'')
     (find_all ''a'' (BeautifulSoup demo_env body_ab)) = [''/a'', ''/b'']"
    by (simp add: demo_env_def soup_ab_def List.map_filter_simps)
  have get: "requests_get demo_env ''http://example.com/ab'' =
      Inr \<lparr> status_code = 200, text_of = body_ab \<rparr>"
    by (simp add: demo_env_def)
  have clean: "cleanup_html demo_env s l = Inr (demo_clean s l)" for s l
    by (simp add: demo_env_def)
  show ?thesis
    using static_fetch_links
      [of "FetchNode_init None ''url'' [''doc''] None ''Fetch''" demo_env
          "[''url'' \<mapsto> Str ''http://example.com/ab'']" "''http://example.com/ab''"
          "\<lparr> status_code = 200, text_of = body_ab \<rparr>"
          "demo_clean (prettify demo_env (BeautifulSoup demo_env body_ab)) (Some [''/a'', ''/b''])"
          "''doc''" "[]"]
      links get clean demo_input_source_single [of None "''url''" "[''doc'']" None "''Fetch''"]
    by (simp add: FetchNode_init_def startswith_def)
qed

subsection \<open>Literal input\<close>

text \<open>
  C3. When the declared input is \<open>json_dir\<close>, \<open>xml_dir\<close> or \<open>csv_dir\<close>,
  the document written has the input string itself as its content (the
  cleaner is not applied) and \<open>local_dir\<close> as the source in its metadata.
\<close>

theorem literal_input_verbatim:
  assumes "input self = ''json_dir'' \<or> input self = ''xml_dir'' \<or> input self = ''csv_dir''"
    and "input_source E self state = Inr (Str source)"
    and "output self = key # keys"
  shows "execute E self state =
           \<lparr> raised = None, node_after = self,
             state_after = state(key \<mapsto>
               Docs [\<lparr> page_content = source, metadata = [''source'' \<mapsto> ''local_dir''] \<rparr>]),
             calls = [] \<rparr>"
  using assms by (simp add: execute_def compressed_document_def)

theorem literal_input_verbatim_witness:
  "execute demo_env (FetchNode_init None ''json_dir'' [''doc''] None ''Fetch'')
       [''json_dir'' \<mapsto> Str ''{\"a\": 1}''] =
     \<lparr> raised = None,
       node_after = FetchNode_init None ''json_dir'' [''doc''] None ''Fetch'',
       state_after =
         [''json_dir'' \<mapsto> Str ''{\"a\": 1}'',
          ''doc'' \<mapsto> Docs [\<lparr> page_content = ''{\"a\": 1}'',
                                 metadata = [''source'' \<mapsto> ''local_dir''] \<rparr>]],
       calls = [] \<rparr>"
  using literal_input_verbatim
    [of "FetchNode_init None ''json_dir'' [''doc''] None ''Fetch''" demo_env
        "[''json_dir'' \<mapsto> Str ''{\"a\": 1}'']" "''{\"a\": 1}''" "''doc''" "[]"]
  by (simp add: input_source_def demo_env_def FetchNode_init_def)

subsection \<open>Local references\<close>

text \<open>
  C4, as the code has it. When the declared input is not a literal kind and the
  reference does not begin with the four characters \<open>http\<close>, the document
  written has the cleaner's result on the reference as its content and
  \<open>local_dir\<close> as the source in its metadata, and no call leaves the process.
\<close>

theorem not_http_prefix_cleaned:
  assumes "\<not> (input self = ''json_dir'' \<or> input self = ''xml_dir'' \<or> input self = ''csv_dir'')"
    and "input_source E self state = Inr (Str source)"
    and "\<not> startswith source ''http''"
    and "cleanup_html E source None = Inr content"
    and "output self = key # keys"
  shows "execute E self state =
           \<lparr> raised = None, node_after = self,
             state_after = state(key \<mapsto>
               Docs [\<lparr> page_content = content, metadata = [''source'' \<mapsto> ''local_dir''] \<rparr>]),
             calls = [] \<rparr>"
  using assms by (simp add: execute_def compressed_document_def one_document_def)

theorem not_http_prefix_cleaned_witness:
  "execute demo_env (FetchNode_init None ''url'' [''doc''] None ''Fetch'')
       [''url'' \<mapsto> Str ''<p>hello</p>''] =
     \<lparr> raised = None,
       node_after = FetchNode_init None ''url'' [''doc''] None ''Fetch'',
       state_after =
         [''url'' \<mapsto> Str ''<p>hello</p>'',
          ''doc'' \<mapsto> Docs [\<lparr> page_content = demo_clean ''<p>hello</p>'' None,
                                 metadata = [''source'' \<mapsto> ''local_dir''] \<rparr>]],
       calls = [] \<rparr>"
proof -
  have clean: "cleanup_html demo_env ''<p>hello</p>'' None = Inr (demo_clean ''<p>hello</p>'' None)"
    by (simp add: demo_env_def)
  show ?thesis
    using not_http_prefix_cleaned
      [of "FetchNode_init None ''url'' [''doc''] None ''Fetch''" demo_env
          "[''url'' \<mapsto> Str ''<p>hello</p>'']" "''<p>hello</p>''"
          "demo_clean ''<p>hello</p>'' None" "''doc''" "[]"]
      clean demo_input_source_single [of None "''url''" "[''doc'']" None "''Fetch''"]
    by (simp add: FetchNode_init_def startswith_def)
qed

text \<open>
  C4, as the claim words it, fails: the reference \<open>httpd.conf\<close> begins with no
  HTTP(S) scheme prefix and the declared input is not a literal kind, yet
  \<open>requests.get\<close> is called on it and no document is written.
\<close>

theorem no_scheme_reference_fetched:
  "\<not> http_scheme_prefix ''httpd.conf'' \<and>
   input (FetchNode_init None ''url'' [''doc''] None ''Fetch'') = ''url'' \<and>
   execute demo_env (FetchNode_init None ''url'' [''doc''] None ''Fetch'')
       [''url'' \<mapsto> Str ''httpd.conf''] =
     \<lparr> raised = Some (ExternalError ''MissingSchema''),
       node_after = FetchNode_init None ''url'' [''doc''] None ''Fetch'',
       state_after = [''url'' \<mapsto> Str ''httpd.conf''],
       calls = [Get ''httpd.conf''] \<rparr>"
  by (simp add: http_scheme_prefix_def execute_def input_source_def compressed_document_def
      static_fetch_def demo_env_def FetchNode_init_def startswith_def)

text \<open>
  C10. For a declared input that is not a literal kind, the four characters
  \<open>http\<close> at the start of the reference decide alone: with them, the call that
  leaves the process targets the reference (the GET on the static strategy, the
  browser on the dynamic one, which gets that far when \<open>self.node_config\<close>
  can be read); without them, no call leaves the process and the document is
  the cleaner's result on the reference, marked \<open>local_dir\<close>.
\<close>

theorem http_prefix_decides_remote:
  assumes "\<not> (input self = ''json_dir'' \<or> input self = ''xml_dir'' \<or> input self = ''csv_dir'')"
    and "input_source E self state = Inr (Str source)"
    and "truthy (useSoup self) \<or> node_config self \<noteq> None"
  shows "(startswith source ''http'' \<longrightarrow>
            (\<exists>c. calls (execute E self state) = [c] \<and> call_urls c = [source])) \<and>
         (\<not> startswith source ''http'' \<longrightarrow>
            calls (execute E self state) = [] \<and>
            compressed_document E self (Str source) =
              (one_document (cleanup_html E source None) [''source'' \<mapsto> ''local_dir''], []))"
proof (cases "startswith source ''http''")
  case False
  with assms show ?thesis
    by (simp add: calls_execute compressed_document_def)
next
  case True
  show ?thesis
  proof (cases "truthy (useSoup self)")
    case True
    with assms \<open>startswith source ''http''\<close> show ?thesis
      by (simp add: calls_execute compressed_document_def static_fetch_calls)
  next
    case False
    with assms obtain nc where "node_config self = Some nc" by auto
    with assms False \<open>startswith source ''http''\<close> show ?thesis
      by (simp add: calls_execute compressed_document_def dynamic_fetch_calls)
  qed
qed

theorem http_prefix_decides_remote_witness:
  "startswith ''httpd.conf'' ''http'' \<and>
   (\<exists>c. calls (execute demo_env (FetchNode_init None ''url'' [''doc''] None ''Fetch'')
                  [''url'' \<mapsto> Str ''httpd.conf'']) = [c] \<and>
        call_urls c = [''httpd.conf''])"
proof -
  have sw: "startswith ''httpd.conf'' ''http''"
    by (simp add: startswith_def)
  have k: "\<not> (input (FetchNode_init None ''url'' [''doc''] None ''Fetch'') = ''json_dir'' \<or>
              input (FetchNode_init None ''url'' [''doc''] None ''Fetch'') = ''xml_dir'' \<or>
              input (FetchNode_init None ''url'' [''doc''] None ''Fetch'') = ''csv_dir'')"
    by (simp add: FetchNode_init_def)
  have u: "truthy (useSoup (FetchNode_init None ''url'' [''doc''] None ''Fetch'')) \<or>
           node_config (FetchNode_init None ''url'' [''doc''] None ''Fetch'') \<noteq> None"
    by (simp add: FetchNode_init_def)
  from http_prefix_decides_remote
    [OF k demo_input_source_single u, where source = "''httpd.conf''"] sw
  show ?thesis by blast
qed

subsection \<open>The dynamic strategy\<close>

text \<open>
  C5. The claim: on the dynamic strategy the browser is given the configured
  endpoint as its proxy. The code at a node constructed with an endpoint: the
  constructor keeps nothing of \<open>node_config\<close> but the three flags, so the
  endpoint does not reach \<open>execute\<close>. When the inherited constructor binds no
  \<open>node_config\<close> the call raises before the browser is reached; when it binds
  \<open>None\<close> the browser is loaded without proxies.
\<close>

theorem endpoint_not_passed:
  "execute demo_env
       (FetchNode_init None ''url'' [''doc'']
          (Some [''useSoup'' \<mapsto> PBool False, ''endpoint'' \<mapsto> PStr ''http://proxy:8080''])
          ''Fetch'')
       [''url'' \<mapsto> Str ''http://example.com/ab''] =
     \<lparr> raised = Some (AttributeError ''node_config''),
       node_after =
         FetchNode_init None ''url'' [''doc'']
           (Some [''useSoup'' \<mapsto> PBool False, ''endpoint'' \<mapsto> PStr ''http://proxy:8080''])
           ''Fetch'',
       state_after = [''url'' \<mapsto> Str ''http://example.com/ab''],
       calls = [] \<rparr> \<and>
   calls (execute demo_env
       (FetchNode_init (Some None) ''url'' [''doc'']
          (Some [''useSoup'' \<mapsto> PBool False, ''endpoint'' \<mapsto> PStr ''http://proxy:8080''])
          ''Fetch'')
       [''url'' \<mapsto> Str ''http://example.com/ab'']) =
     [ChromiumLoad [''http://example.com/ab''] None (PBool True)]"
  by (simp add: execute_def input_source_def compressed_document_def
      dynamic_fetch_def demo_env_def FetchNode_init_def startswith_def dict_get_def one_document_def)

text \<open>
  C9, as the code has it. \<open>FetchNode.__init__\<close> neither assigns
  \<open>node_config\<close> nor passes the dictionary on, so what a call on the dynamic
  strategy reads as \<open>self.node_config\<close> is what the inherited constructor
  bound, whatever dictionary the constructor was given. Bound to \<open>None\<close> or
  to a dictionary, the read succeeds and the browser is loaded on the source,
  with the proxies that value gives (none for \<open>None\<close>); only with nothing
  bound does the read raise \<open>AttributeError\<close>, before any call and with the
  state as it was.
\<close>

theorem dynamic_fetch_reads_inherited:
  assumes "self = FetchNode_init inherited inp outp cfg nm"
    and "\<not> (inp = ''json_dir'' \<or> inp = ''xml_dir'' \<or> inp = ''csv_dir'')"
    and "input_source E self state = Inr (Str source)"
    and "startswith source ''http''"
    and "\<not> truthy (useSoup self)"
  shows "node_config self = inherited \<and>
         (case inherited of
            None \<Rightarrow>
              execute E self state =
                \<lparr> raised = Some (AttributeError ''node_config''), node_after = self,
                  state_after = state, calls = [] \<rparr>
          | Some nc \<Rightarrow>
              calls (execute E self state) =
                [ChromiumLoad [source]
                   (case nc of
                      None \<Rightarrow> None
                    | Some d \<Rightarrow>
                        (case d ''endpoint'' of
                           None \<Rightarrow> None
                         | Some PNone \<Rightarrow> None
                         | Some endpoint \<Rightarrow> Some [(''http'', endpoint)]))
                   (headless self)])"
proof (cases inherited)
  case None
  with assms show ?thesis
    by (simp add: execute_def compressed_document_def dynamic_fetch_def FetchNode_init_def)
next
  case (Some nc)
  with assms have nc: "node_config self = Some nc"
    by (simp add: FetchNode_init_def)
  from assms have kind:
    "\<not> (input self = ''json_dir'' \<or> input self = ''xml_dir'' \<or> input self = ''csv_dir'')"
    by (simp add: FetchNode_init_def)
  from assms kind have "calls (execute E self state) = snd (dynamic_fetch E self source)"
    by (simp add: calls_execute compressed_document_def)
  with nc Some show ?thesis
    by (simp add: dynamic_fetch_calls)
qed

theorem dynamic_fetch_reads_inherited_witness:
  "calls (execute demo_env
       (FetchNode_init (Some None) ''url'' [''doc'']
          (Some [''useSoup'' \<mapsto> PBool False, ''endpoint'' \<mapsto> PStr ''http://proxy:3128''])
          ''Fetch'')
       [''url'' \<mapsto> Str ''https://example.com/app'']) =
     [ChromiumLoad [''https://example.com/app''] None (PBool True)]"
proof -
  have us: "\<not> truthy (useSoup (FetchNode_init (Some None) ''url'' [''doc'']
          (Some [''useSoup'' \<mapsto> PBool False, ''endpoint'' \<mapsto> PStr ''http://proxy:3128''])
          ''Fetch''))"
    by (simp add: FetchNode_init_def dict_get_def)
  have sw: "startswith ''https://example.com/app'' ''http''"
    by (simp add: startswith_def)
  have k: "\<not> (''url'' = ''json_dir'' \<or> ''url'' = ''xml_dir'' \<or> ''url'' = ''csv_dir'')"
    by simp
  have h: "headless (FetchNode_init (Some None) ''url'' [''doc'']
          (Some [''useSoup'' \<mapsto> PBool False, ''endpoint'' \<mapsto> PStr ''http://proxy:3128''])
          ''Fetch'') = PBool True"
    by (simp add: FetchNode_init_def dict_get_def)
  from dynamic_fetch_reads_inherited [OF refl k demo_input_source_single sw us] h
  show ?thesis by simp
qed

text \<open>
  C9, as the claim words it, fails: on an instance whose \<open>node_config\<close> the
  inherited constructor has bound to \<open>None\<close>, a call on the dynamic strategy
  raises nothing; it loads the page and writes its document.
\<close>

theorem dynamic_fetch_returns:
  "execute demo_env
       (FetchNode_init (Some None) ''url'' [''doc'']
          (Some [''useSoup'' \<mapsto> PBool False, ''headless'' \<mapsto> PBool False]) ''Fetch'')
       [''url'' \<mapsto> Str ''https://example.com/app''] =
     \<lparr> raised = None,
       node_after =
         FetchNode_init (Some None) ''url'' [''doc'']
           (Some [''useSoup'' \<mapsto> PBool False, ''headless'' \<mapsto> PBool False]) ''Fetch'',
       state_after =
         [''url'' \<mapsto> Str ''https://example.com/app'',
          ''doc'' \<mapsto> Docs [\<lparr> page_content = demo_clean ''<html>rendered</html>'' None,
                                 metadata = Map.empty \<rparr>]],
       calls = [ChromiumLoad [''https://example.com/app''] None (PBool False)] \<rparr>"
  by (simp add: execute_def input_source_def compressed_document_def
      dynamic_fetch_def demo_env_def FetchNode_init_def startswith_def dict_get_def one_document_def)

subsection \<open>The state\<close>

text \<open>
  C6. When \<open>execute\<close> returns, whichever branch it took, the value under the
  output key is a list of exactly one document.
\<close>

theorem one_document_written:
  assumes "raised (execute E self state) = None"
  shows "\<exists>key keys d. output self = key # keys \<and>
           state_after (execute E self state) key = Some (Docs [d])"
proof -
  from assms obtain source docs cs key keys where
    cd: "compressed_document E self source = (Inr docs, cs)" and
    out: "output self = key # keys" and
    st: "state_after (execute E self state) = state(key \<mapsto> Docs docs)"
    by (auto simp: execute_def split: sum.splits prod.splits list.splits)
  from cd have "length docs = 1" by (rule compressed_document_length)
  then obtain d where "docs = [d]" by (cases docs) auto
  with out st show ?thesis by simp
qed

theorem one_document_written_witness:
  "raised (execute demo_env (FetchNode_init None ''url'' [''doc''] None ''Fetch'')
             [''url'' \<mapsto> Str ''<p>hello</p>'']) = None \<and>
   (\<exists>key keys d. output (FetchNode_init None ''url'' [''doc''] None ''Fetch'') = key # keys \<and>
      state_after (execute demo_env (FetchNode_init None ''url'' [''doc''] None ''Fetch'')
                     [''url'' \<mapsto> Str ''<p>hello</p>'']) key = Some (Docs [d]))"
proof -
  have h: "raised (execute demo_env (FetchNode_init None ''url'' [''doc''] None ''Fetch'')
             [''url'' \<mapsto> Str ''<p>hello</p>'']) = None"
    by (simp add: execute_def input_source_def compressed_document_def demo_env_def
        FetchNode_init_def startswith_def one_document_def)
  from h one_document_written [OF h] show ?thesis by blast
qed

text \<open>
  C7. Whatever the state and whatever the call does, every key other than the
  declared output key \<open>self.output[0]\<close> has the same value after the call as
  before it.
\<close>

theorem other_keys_unchanged:
  assumes "take 1 (output self) \<noteq> [key]"
  shows "state_after (execute E self state) key = state key"
  using assms state_after_execute [of E self state] by auto

theorem other_keys_unchanged_witness:
  "take 1 (output (FetchNode_init None ''url'' [''doc''] None ''Fetch'')) \<noteq> [''url''] \<and>
   state_after (execute demo_env (FetchNode_init None ''url'' [''doc''] None ''Fetch'')
                  [''url'' \<mapsto> Str ''<p>hello</p>'']) ''url'' = Some (Str ''<p>hello</p>'')"
proof -
  have h: "take 1 (output (FetchNode_init None ''url'' [''doc''] None ''Fetch'')) \<noteq> [''url'']"
    by (simp add: FetchNode_init_def)
  from h other_keys_unchanged [OF h, of demo_env "[''url'' \<mapsto> Str ''<p>hello</p>'']"]
  show ?thesis by simp
qed

subsection \<open>The configuration\<close>

text \<open>
  C8. The constructor binds \<open>useSoup\<close> to \<open>True\<close>, \<open>headless\<close> to \<open>True\<close>
  and \<open>verbose\<close> to \<open>False\<close> when \<open>node_config\<close> is \<open>None\<close> or lacks the
  key, and \<open>execute\<close> leaves every attribute of the instance as it found it.
\<close>

theorem config_defaults:
  "useSoup (FetchNode_init inherited inp outp None nm) = PBool True \<and>
   headless (FetchNode_init inherited inp outp None nm) = PBool True \<and>
   verbose (FetchNode_init inherited inp outp None nm) = PBool False \<and>
   (d ''useSoup'' = None \<longrightarrow>
      useSoup (FetchNode_init inherited inp outp (Some d) nm) = PBool True) \<and>
   (d ''headless'' = None \<longrightarrow>
      headless (FetchNode_init inherited inp outp (Some d) nm) = PBool True) \<and>
   (d ''verbose'' = None \<longrightarrow>
      verbose (FetchNode_init inherited inp outp (Some d) nm) = PBool False) \<and>
   node_after (execute E self state) = self"
  by (auto simp: FetchNode_init_def dict_get_def execute_def
      split: sum.splits prod.splits list.splits)

theorem config_defaults_witness:
  "[''verbose'' \<mapsto> PBool True] ''useSoup'' = None \<and>
   [''verbose'' \<mapsto> PBool True] ''headless'' = None \<and>
   useSoup (FetchNode_init None ''url'' [''doc''] (Some [''verbose'' \<mapsto> PBool True]) ''Fetch'')
     = PBool True \<and>
   headless (FetchNode_init None ''url'' [''doc''] (Some [''verbose'' \<mapsto> PBool True]) ''Fetch'')
     = PBool True \<and>
   [''useSoup'' \<mapsto> PBool False] ''verbose'' = None \<and>
   verbose (FetchNode_init None ''url'' [''doc''] (Some [''useSoup'' \<mapsto> PBool False]) ''Fetch'')
     = PBool False"
  using config_defaults [of None "''url''" "[''doc'']" "''Fetch''" "[''verbose'' \<mapsto> PBool True]"]
        config_defaults [of None "''url''" "[''doc'']" "''Fetch''" "[''useSoup'' \<mapsto> PBool False]"]
  by simp

end
